theory Spec2Isabelle
  imports Main
begin

section \<open>Data model\<close>

text \<open>
  The blog of the portfolio site: \<^verbatim>\<open>src/app/blog/page.tsx\<close> builds the listing,
  \<^verbatim>\<open>src/app/blog/[slug]/page.tsx\<close> the detail page, its metadata and its static
  parameters. A rejected promise and a thrown exception are both the left summand of a
  result \<open>error + 'a\<close>.
\<close>

datatype error =
  RepositoryUnavailable
  | FileUnreadable
  | MalformedDocument
  | ValidationError
  | RenderError

text \<open>
  A value of a front-matter block as the YAML reader hands it over: a string, a boolean,
  a date (a JavaScript \<open>Date\<close>, read through its time value in milliseconds), a number,
  a sequence, or null. A front-matter object maps keys to such values; a key that is
  absent reads as \<open>undefined\<close>, here \<open>None\<close>.
\<close>

datatype raw_value =
  RString string
  | RBool bool
  | RDate int
  | RNumber int
  | RList "raw_value list"
  | RNull

type_synonym frontmatter = "string \<rightharpoonup> raw_value"

text \<open>
  Modelled from the spec: the type that \<open>blogMatterSchema.parse\<close> returns. The schema is
  imported from \<^verbatim>\<open>@/validation/blog\<close>, which is not among the source files; the fields
  are those of the spec's ValidatedMetadata and those the two pages read. \<open>draft\<close> is
  optional for the pages (\<open>post.draft !== true\<close>, \<open>matter.draft &&\<close>), so it is an option.
\<close>

record matter =
  title :: string
  summary :: string
  publishedAt :: int
  updatedAt :: "int option"
  tags :: "string list"
  draft :: "bool option"

text \<open>An entry of the listing: the validated fields spread into an object, plus \<open>slug\<close>.\<close>

record post = matter +
  slug :: string

text \<open>What \<open>readMdFile\<close> resolves to, and what \<open>serialize\<close> resolves to.\<close>

record md =
  frontmatter :: frontmatter

record mdx =
  compiledSource :: string
  mdx_frontmatter :: frontmatter

text \<open>
  What the pages import and do not define: the build-mode flag, the helpers of
  \<^verbatim>\<open>@/utils/utils\<close> and \<^verbatim>\<open>@/utils/md\<close>, the schema, and the primitives of the platform
  that touch the file system or compile a document. They are the parameters of the
  model. \<open>lookupPublicFile\<close> answers \<open>None\<close> where the source gets \<open>undefined\<close> or \<open>null\<close>;
  the second argument of \<open>readMdFile\<close> is the option \<open>frontmatterOnly\<close>; \<open>ToString\<close> is the
  engine's conversion of a value that is not a string inside a template literal.
\<close>

record env =
  IS_DEVELOPMENT :: bool
  getPublicPath :: "string \<Rightarrow> string"
  lookupPublicFile :: "string \<Rightarrow> string \<Rightarrow> string option"
  readdirSync :: "string \<Rightarrow> error + string list"
  readMdFile :: "string \<Rightarrow> bool \<Rightarrow> error + md"
  readFileSync :: "string \<Rightarrow> error + string"
  serialize :: "string \<Rightarrow> error + mdx"
  blogMatterSchema_parse :: "frontmatter \<Rightarrow> error + matter"
  ToString :: "raw_value \<Rightarrow> string"

section \<open>Primitives of the language\<close>

text \<open>\<open>s.split(".")[0]\<close>: the part of \<open>s\<close> before its first dot, all of \<open>s\<close> without one.\<close>

definition split_dot_first :: "string \<Rightarrow> string" where
  "split_dot_first s = takeWhile (\<lambda>c. c \<noteq> CHR ''.'') s"

text \<open>\<open>x ?? ""\<close> on the answer of \<open>lookupPublicFile\<close>.\<close>

definition or_empty :: "string option \<Rightarrow> string" where
  "or_empty x = (case x of None \<Rightarrow> [] | Some p \<Rightarrow> p)"

text \<open>
  \<open>Promise.all\<close>: fulfilled with all the values, in the order of the promises, when
  every promise is fulfilled, rejected as soon as one is. Which rejection wins when
  several promises fail depends on timing; the model takes the first in list order.
\<close>

fun promise_all :: "(error + 'a) list \<Rightarrow> error + 'a list" where
  "promise_all [] = Inr []"
| "promise_all (p # ps) =
     (case p of
        Inl e \<Rightarrow> Inl e
      | Inr v \<Rightarrow> (case promise_all ps of Inl e \<Rightarrow> Inl e | Inr vs \<Rightarrow> Inr (v # vs)))"

text \<open>
  \<open>xs.map(f)\<close> with a callback that may throw: the elements are visited from the left
  and the first exception leaves the whole expression.
\<close>

fun map_throwing :: "('a \<Rightarrow> error + 'b) \<Rightarrow> 'a list \<Rightarrow> error + 'b list" where
  "map_throwing f [] = Inr []"
| "map_throwing f (x # xs) =
     (case f x of
        Inl e \<Rightarrow> Inl e
      | Inr y \<Rightarrow> (case map_throwing f xs of Inl e \<Rightarrow> Inl e | Inr ys \<Rightarrow> Inr (y # ys)))"

text \<open>
  \<open>xs.sort(cmp)\<close> as a stable insertion sort driven by the comparator: an element moves
  behind another one exactly when the comparator answers a positive number for the
  pair. The sort of the language is stable as well; how an engine orders entries for
  which the comparator never answers 0, as the one of the listing does not, is left to
  the engine, and the model fixes one such order.
\<close>

fun insert_cmp :: "('a \<Rightarrow> 'a \<Rightarrow> int) \<Rightarrow> 'a \<Rightarrow> 'a list \<Rightarrow> 'a list" where
  "insert_cmp cmp x [] = [x]"
| "insert_cmp cmp x (y # ys) =
     (if 0 < cmp x y then y # insert_cmp cmp x ys else x # y # ys)"

definition sort_cmp :: "('a \<Rightarrow> 'a \<Rightarrow> int) \<Rightarrow> 'a list \<Rightarrow> 'a list" where
  "sort_cmp cmp xs = foldr (insert_cmp cmp) xs []"

section \<open>The listing page\<close>

text \<open>The comparator of line 37: \<open>(a, b) => (a.publishedAt < b.publishedAt ? 1 : -1)\<close>.\<close>

definition compare_publishedAt :: "post \<Rightarrow> post \<Rightarrow> int" where
  "compare_publishedAt a b = (if publishedAt a < publishedAt b then 1 else - 1)"

text \<open>The promise the listing creates for one file name (lines 22 to 28).\<close>

definition read_listed :: "env \<Rightarrow> string \<Rightarrow> error + md" where
  "read_listed E file =
     readMdFile E
       (or_empty (lookupPublicFile E
          (getPublicPath E (''content/blog/'' @ split_dot_first file)) ''mdx''))
       True"

text \<open>The callback of the first \<open>map\<close> after the reads (lines 32 to 35).\<close>

definition to_post :: "env \<Rightarrow> md \<times> string \<Rightarrow> error + post" where
  "to_post E = (\<lambda>(m, file).
     case blogMatterSchema_parse E (frontmatter m) of
       Inl e \<Rightarrow> Inl e
     | Inr v \<Rightarrow> Inr (matter.extend v (post.fields (split_dot_first file))))"

text \<open>The predicate of the filter (line 36).\<close>

definition listed :: "env \<Rightarrow> post \<Rightarrow> bool" where
  "listed E p = (draft p \<noteq> Some True \<or> IS_DEVELOPMENT E)"

text \<open>
  \<open>Page\<close> of \<^verbatim>\<open>src/app/blog/page.tsx\<close>, up to the constant \<open>parsed\<close>: the markup that
  follows renders one list item per element of \<open>parsed\<close>, in its order.
\<close>

definition Page :: "env \<Rightarrow> error + post list" where
  "Page E =
     (case readdirSync E (getPublicPath E ''content/blog'') of
        Inl e \<Rightarrow> Inl e
      | Inr files \<Rightarrow>
          (case promise_all (map (read_listed E) files) of
             Inl e \<Rightarrow> Inl e
           | Inr mds \<Rightarrow>
               (case map_throwing (to_post E) (zip mds files) of
                  Inl e \<Rightarrow> Inl e
                | Inr posts \<Rightarrow>
                    Inr (sort_cmp compare_publishedAt (filter (listed E) posts)))))"

section \<open>The detail route\<close>

text \<open>
  \<open>path.parse(fileName).name\<close> of the platform's path module, on a directory entry (an
  entry holds no path separator): the name up to its last dot, and the whole entry when
  it has no dot, when its only dot is its first character, or when it is \<open>..\<close>.
\<close>

definition path_parse_name :: "string \<Rightarrow> string" where
  "path_parse_name base =
     (let startDot = length base - Suc (length (takeWhile (\<lambda>c. c \<noteq> CHR ''.'') (rev base)))
      in if CHR ''.'' \<notin> set base then base
         else if startDot = 0 then base
         else if base = ''..'' then base
         else take startDot base)"

text \<open>\<open>generateStaticParams\<close> (lines 43 to 49): one slug per directory entry.\<close>

definition generateStaticParams :: "env \<Rightarrow> error + string list" where
  "generateStaticParams E =
     (case readdirSync E (getPublicPath E ''content/blog'') of
        Inl e \<Rightarrow> Inl e
      | Inr filesNames \<Rightarrow> Inr (map path_parse_name filesNames))"





text \<open>
  What the detail page shows: the paragraph \<open>Post not Found\<close>, or the article with its
  heading, its dates, the key of its hit counter, its tag badges, the draft notice when
  it is there, and the compiled body when it is there.
\<close>

record article =
  heading :: string
  published :: int
  updated :: "int option"
  hits :: string
  badges :: "string list"
  draft_notice :: bool
  body :: "mdx option"

datatype view = PostNotFound | Article article

text \<open>The calls of the detail page that read, compile or validate a document.\<close>

datatype effect = ReadFile string | Serialize string | SchemaParse

text \<open>
  \<open>Page\<close> of \<^verbatim>\<open>src/app/blog/[slug]/page.tsx\<close> (lines 51 to 135), with the calls it
  has made. \<open>!file\<close> holds for \<open>undefined\<close> and for the empty string; \<open>matter.draft &&\<close>
  holds for \<open>true\<close> only.
\<close>

definition slug_Page :: "env \<Rightarrow> string \<Rightarrow> effect list \<times> (error + view)" where
  "slug_Page E params_slug =
     (case lookupPublicFile E (getPublicPath E (''content/blog/'' @ params_slug)) ''mdx'' of
        None \<Rightarrow> ([], Inr PostNotFound)
      | Some file \<Rightarrow>
          if file = [] then ([], Inr PostNotFound)
          else
            (case readFileSync E file of
               Inl e \<Rightarrow> ([ReadFile file], Inl e)
             | Inr fileContents \<Rightarrow>
                 (case serialize E fileContents of
                    Inl e \<Rightarrow> ([ReadFile file, Serialize fileContents], Inl e)
                  | Inr compiled \<Rightarrow>
                      (case blogMatterSchema_parse E (mdx_frontmatter compiled) of
                         Inl e \<Rightarrow>
                           ([ReadFile file, Serialize fileContents, SchemaParse], Inl e)
                       | Inr m \<Rightarrow>
                           ([ReadFile file, Serialize fileContents, SchemaParse],
                            Inr (Article
                              \<lparr>heading = title m,
                               published = publishedAt m,
                               updated = updatedAt m,
                               hits = ''/blog/'' @ params_slug,
                               badges = tags m,
                               draft_notice = (draft m = Some True),
                               body = (if draft m \<noteq> Some True \<or> IS_DEVELOPMENT E
                                       then Some compiled else None)\<rparr>))))))"

section \<open>The schema\<close>

text \<open>
  Modelled from the spec: \<open>blogMatterSchema\<close> of \<^verbatim>\<open>@/validation/blog\<close>, which the pages
  import and which is not among the source files. Required: \<open>title\<close> (a non-empty
  string), \<open>summary\<close> (a string), \<open>publishedAt\<close> (a date), \<open>tags\<close> (a sequence of
  strings, possibly empty); optional: \<open>updatedAt\<close> (a date) and \<open>draft\<close> (a boolean, false
  when absent). A bare string under \<open>tags\<close> becomes a one-element sequence before the
  sequence is checked. A date is a date value or a string that \<open>parseDate\<close>, a parameter,
  reads as one.
\<close>

definition check_title :: "raw_value option \<Rightarrow> string option" where
  "check_title v =
     (case v of Some (RString t) \<Rightarrow> if t = [] then None else Some t | _ \<Rightarrow> None)"

definition check_summary :: "raw_value option \<Rightarrow> string option" where
  "check_summary v = (case v of Some (RString s) \<Rightarrow> Some s | _ \<Rightarrow> None)"

definition coerce_date :: "(string \<Rightarrow> int option) \<Rightarrow> raw_value \<Rightarrow> int option" where
  "coerce_date parseDate v =
     (case v of RDate d \<Rightarrow> Some d | RString s \<Rightarrow> parseDate s | _ \<Rightarrow> None)"

definition check_date :: "(string \<Rightarrow> int option) \<Rightarrow> raw_value option \<Rightarrow> int option" where
  "check_date parseDate v = (case v of None \<Rightarrow> None | Some x \<Rightarrow> coerce_date parseDate x)"

definition check_optional_date ::
  "(string \<Rightarrow> int option) \<Rightarrow> raw_value option \<Rightarrow> int option option" where
  "check_optional_date parseDate v =
     (case v of None \<Rightarrow> Some None | Some x \<Rightarrow> map_option Some (coerce_date parseDate x))"

definition normalize_tags :: "raw_value \<Rightarrow> raw_value" where
  "normalize_tags v = (case v of RString s \<Rightarrow> RList [RString s] | _ \<Rightarrow> v)"

fun strings_of :: "raw_value list \<Rightarrow> string list option" where
  "strings_of [] = Some []"
| "strings_of (RString s # vs) = map_option ((#) s) (strings_of vs)"
| "strings_of (_ # vs) = None"

definition check_sequence :: "raw_value \<Rightarrow> string list option" where
  "check_sequence v = (case v of RList vs \<Rightarrow> strings_of vs | _ \<Rightarrow> None)"

definition check_tags :: "raw_value option \<Rightarrow> string list option" where
  "check_tags v = (case v of None \<Rightarrow> None | Some x \<Rightarrow> check_sequence (normalize_tags x))"

definition check_draft :: "raw_value option \<Rightarrow> bool option option" where
  "check_draft v =
     (case v of None \<Rightarrow> Some (Some False) | Some (RBool b) \<Rightarrow> Some (Some b) | _ \<Rightarrow> None)"

definition validate :: "(string \<Rightarrow> int option) \<Rightarrow> frontmatter \<Rightarrow> error + matter" where
  "validate parseDate raw =
     (case
        Option.bind (check_title (raw ''title'')) (\<lambda>t.
        Option.bind (check_summary (raw ''summary'')) (\<lambda>s.
        Option.bind (check_date parseDate (raw ''publishedAt'')) (\<lambda>p.
        Option.bind (check_optional_date parseDate (raw ''updatedAt'')) (\<lambda>u.
        Option.bind (check_tags (raw ''tags'')) (\<lambda>g.
        Option.bind (check_draft (raw ''draft'')) (\<lambda>d.
          Some \<lparr>title = t, summary = s, publishedAt = p, updatedAt = u,
                tags = g, draft = d\<rparr>))))))
      of None \<Rightarrow> Inl ValidationError | Some m \<Rightarrow> Inr m)"

text \<open>
  A validated record read as a front-matter object again, the way the schema would be
  handed its own result: every field under its key, an absent optional field absent.
\<close>

definition to_raw :: "matter \<Rightarrow> frontmatter" where
  "to_raw m = (\<lambda>k.
     if k = ''title'' then Some (RString (title m))
     else if k = ''summary'' then Some (RString (summary m))
     else if k = ''publishedAt'' then Some (RDate (publishedAt m))
     else if k = ''updatedAt'' then map_option RDate (updatedAt m)
     else if k = ''tags'' then Some (RList (map RString (tags m)))
     else if k = ''draft'' then map_option RBool (draft m)
     else None)"

section \<open>The text of a value\<close>

text \<open>
  \<open>ToString\<close> of the language on the values of a front-matter block, for the in-memory
  repository below: a string is itself, a boolean \<open>true\<close> or \<open>false\<close>, null \<open>null\<close>, a
  number (an integer that the reader reads exactly, below \<open>10^21\<close> in size) its decimal
  numeral, a sequence the texts of its elements joined by commas, with nothing for a
  null element. The text of a date depends on the time zone of the host and on the
  engine; \<open>utc_date_text\<close> is the text in the time zone UTC, with the zone named as
  Node names it.
\<close>

definition digit_char :: "nat \<Rightarrow> char" where
  "digit_char d = ''0123456789'' ! d"

fun decimal :: "nat \<Rightarrow> string" where
  "decimal n = (if n < 10 then [digit_char n] else decimal (n div 10) @ [digit_char (n mod 10)])"

definition number_text :: "int \<Rightarrow> string" where
  "number_text n = (if n < 0 then ''-'' @ decimal (nat (- n)) else decimal (nat n))"

definition padded :: "nat \<Rightarrow> nat \<Rightarrow> string" where
  "padded width n = replicate (width - length (decimal n)) CHR ''0'' @ decimal n"

definition utc_date_text :: "int \<Rightarrow> string" where
  "utc_date_text t =
     (let day = t div 86400000;
          ms = t mod 86400000;
          z = day + 719468;
          era = z div 146097;
          doe = z mod 146097;
          yoe = (doe - doe div 1460 + doe div 36524 - doe div 146096) div 365;
          doy = doe - (365 * yoe + yoe div 4 - yoe div 100);
          mp = (5 * doy + 2) div 153;
          d = doy - (153 * mp + 2) div 5 + 1;
          m = (if mp < 10 then mp + 3 else mp - 9);
          y = yoe + era * 400 + (if m \<le> 2 then 1 else 0)
      in [''Sun'', ''Mon'', ''Tue'', ''Wed'', ''Thu'', ''Fri'', ''Sat''] ! nat ((day + 4) mod 7)
         @ '' '' @
         [''Jan'', ''Feb'', ''Mar'', ''Apr'', ''May'', ''Jun'',
          ''Jul'', ''Aug'', ''Sep'', ''Oct'', ''Nov'', ''Dec''] ! nat (m - 1)
         @ '' '' @ padded 2 (nat d)
         @ '' '' @ (if y < 0 then ''-'' else []) @ padded 4 (nat \<bar>y\<bar>)
         @ '' '' @ padded 2 (nat (ms div 3600000))
         @ '':'' @ padded 2 (nat (ms mod 3600000 div 60000))
         @ '':'' @ padded 2 (nat (ms mod 60000 div 1000))
         @ '' GMT+0000 (Coordinated Universal Time)'')"

fun join_comma :: "string list \<Rightarrow> string" where
  "join_comma [] = []"
| "join_comma [s] = s"
| "join_comma (s # t # ts) = s @ '','' @ join_comma (t # ts)"

fun js_ToString :: "raw_value \<Rightarrow> string" where
  "js_ToString (RString s) = s"
| "js_ToString (RBool b) = (if b then ''true'' else ''false'')"
| "js_ToString (RDate t) = utc_date_text t"
| "js_ToString (RNumber n) = number_text n"
| "js_ToString (RList vs) =
     join_comma (map (\<lambda>v. case v of RNull \<Rightarrow> [] | _ \<Rightarrow> js_ToString v) vs)"
| "js_ToString RNull = ''null''"

section \<open>An in-memory repository\<close>

text \<open>
  Modelled from the spec: a content repository held in memory, for running the pages
  on concrete content (the helpers of \<^verbatim>\<open>@/utils\<close> are not among the source files). An
  item is one file of \<^verbatim>\<open>public/content/blog\<close>: its name, the front matter its text
  carries, and its text. \<open>lookupPublicFile\<close> finds the file of a path and an extension,
  reading a file that is not there fails, the schema is \<open>validate\<close>, and the engine
  runs in the time zone UTC.
\<close>

record item =
  fileName :: string
  itemFrontmatter :: frontmatter
  rawText :: string

definition item_path :: "item \<Rightarrow> string" where
  "item_path it = ''public/content/blog/'' @ fileName it"

definition fake_env :: "bool \<Rightarrow> item list \<Rightarrow> env" where
  "fake_env dev store =
     \<lparr>IS_DEVELOPMENT = dev,
      getPublicPath = (\<lambda>p. ''public/'' @ p),
      lookupPublicFile = (\<lambda>p ext.
        case find (\<lambda>it. item_path it = p @ ''.'' @ ext) store of
          None \<Rightarrow> None
        | Some it \<Rightarrow> Some (item_path it)),
      readdirSync = (\<lambda>p.
        if p = ''public/content/blog'' then Inr (map fileName store)
        else Inl RepositoryUnavailable),
      readMdFile = (\<lambda>p frontmatterOnly.
        case find (\<lambda>it. item_path it = p) store of
          None \<Rightarrow> Inl FileUnreadable
        | Some it \<Rightarrow> Inr \<lparr>frontmatter = itemFrontmatter it\<rparr>),
      readFileSync = (\<lambda>p.
        case find (\<lambda>it. item_path it = p) store of
          None \<Rightarrow> Inl FileUnreadable
        | Some it \<Rightarrow> Inr (rawText it)),
      serialize = (\<lambda>text.
        case find (\<lambda>it. rawText it = text) store of
          None \<Rightarrow> Inl RenderError
        | Some it \<Rightarrow> Inr \<lparr>compiledSource = text, mdx_frontmatter = itemFrontmatter it\<rparr>),
      blogMatterSchema_parse = validate (\<lambda>s. None),
      ToString = js_ToString\<rparr>"

text \<open>The items of the end-to-end scenarios; a date is its time value in milliseconds.\<close>

definition hello_item :: item where
  "hello_item =
     \<lparr>fileName = ''hello.mdx'',
      itemFrontmatter =
        [''title'' \<mapsto> RString ''Hello'', ''summary'' \<mapsto> RString ''s'',
         ''publishedAt'' \<mapsto> RDate 1704067200000, ''tags'' \<mapsto> RString ''World''],
      rawText = ''hello''\<rparr>"

definition june_item :: item where
  "june_item =
     \<lparr>fileName = ''june.mdx'',
      itemFrontmatter =
        [''title'' \<mapsto> RString ''June'', ''summary'' \<mapsto> RString ''j'',
         ''publishedAt'' \<mapsto> RDate 1717200000000, ''tags'' \<mapsto> RList []],
      rawText = ''june''\<rparr>"

definition wip_item :: item where
  "wip_item =
     \<lparr>fileName = ''wip.mdx'',
      itemFrontmatter =
        [''title'' \<mapsto> RString ''Wip'', ''summary'' \<mapsto> RString ''w'',
         ''publishedAt'' \<mapsto> RDate 1709251200000, ''tags'' \<mapsto> RList [RString ''Notes''],
         ''draft'' \<mapsto> RBool True],
      rawText = ''wip''\<rparr>"

definition broken_item :: item where
  "broken_item =
     \<lparr>fileName = ''broken.mdx'',
      itemFrontmatter =
        [''title'' \<mapsto> RString ''Broken'',
         ''publishedAt'' \<mapsto> RDate 1709251200000, ''tags'' \<mapsto> RString ''Oops''],
      rawText = ''broken''\<rparr>"

definition dotted_item :: item where
  "dotted_item =
     \<lparr>fileName = ''next.js-caching.mdx'',
      itemFrontmatter =
        [''title'' \<mapsto> RString ''Caching'', ''summary'' \<mapsto> RString ''c'',
         ''publishedAt'' \<mapsto> RDate 1709251200000, ''tags'' \<mapsto> RString ''Next.js''],
      rawText = ''caching''\<rparr>"

text \<open>
  Two files whose names agree up to the first dot, the second a draft or without a
  summary; a file without a title; a file whose title is a number.
\<close>

definition next_item :: item where
  "next_item =
     \<lparr>fileName = ''next.mdx'',
      itemFrontmatter =
        [''title'' \<mapsto> RString ''Next'', ''summary'' \<mapsto> RString ''n'',
         ''publishedAt'' \<mapsto> RDate 1704067200000, ''tags'' \<mapsto> RString ''Next.js''],
      rawText = ''next''\<rparr>"

definition next_post :: post where
  "next_post =
     \<lparr>title = ''Next'', summary = ''n'', publishedAt = 1704067200000, updatedAt = None,
      tags = [''Next.js''], draft = Some False, slug = ''next''\<rparr>"

definition dotted_draft_item :: item where
  "dotted_draft_item =
     \<lparr>fileName = ''next.js-caching.mdx'',
      itemFrontmatter =
        [''title'' \<mapsto> RString ''Caching'', ''summary'' \<mapsto> RString ''c'',
         ''publishedAt'' \<mapsto> RDate 1709251200000, ''tags'' \<mapsto> RString ''Next.js'',
         ''draft'' \<mapsto> RBool True],
      rawText = ''caching draft''\<rparr>"

definition dotted_broken_item :: item where
  "dotted_broken_item =
     \<lparr>fileName = ''next.js-caching.mdx'',
      itemFrontmatter =
        [''title'' \<mapsto> RString ''Caching'',
         ''publishedAt'' \<mapsto> RDate 1709251200000, ''tags'' \<mapsto> RString ''Next.js''],
      rawText = ''caching broken''\<rparr>"



definition hello_post :: post where
  "hello_post =
     \<lparr>title = ''Hello'', summary = ''s'', publishedAt = 1704067200000, updatedAt = None,
      tags = [''World''], draft = Some False, slug = ''hello''\<rparr>"

definition june_post :: post where
  "june_post =
     \<lparr>title = ''June'', summary = ''j'', publishedAt = 1717200000000, updatedAt = None,
      tags = [], draft = Some False, slug = ''june''\<rparr>"

definition wip_post :: post where
  "wip_post =
     \<lparr>title = ''Wip'', summary = ''w'', publishedAt = 1709251200000, updatedAt = None,
      tags = [''Notes''], draft = Some True, slug = ''wip''\<rparr>"

section \<open>Properties of the primitives\<close>

lemma set_insert_cmp: "set (insert_cmp cmp x xs) = insert x (set xs)"
  by (induction xs) auto

lemma set_sort_cmp: "set (sort_cmp cmp xs) = set xs"
  by (induction xs) (simp_all add: sort_cmp_def set_insert_cmp)

lemma promise_all_map_Inr: "promise_all (map Inr vs) = Inr vs"
  by (induction vs) simp_all

lemma promise_all_Inr: "promise_all ps = Inr vs \<longleftrightarrow> ps = map Inr vs"
proof
  show "promise_all ps = Inr vs \<Longrightarrow> ps = map Inr vs"
    by (induction ps arbitrary: vs) (auto split: sum.splits)
qed (simp add: promise_all_map_Inr)

lemma map_throwing_Inr: "map_throwing f xs = Inr ys \<longleftrightarrow> map f xs = map Inr ys"
proof
  show "map_throwing f xs = Inr ys \<Longrightarrow> map f xs = map Inr ys"
    by (induction xs arbitrary: ys) (auto split: sum.splits)
  show "map f xs = map Inr ys \<Longrightarrow> map_throwing f xs = Inr ys"
    by (induction xs arbitrary: ys) auto
qed

lemma Page_Inr:
  assumes "Page E = Inr ps"
  obtains files mds posts where
    "readdirSync E (getPublicPath E ''content/blog'') = Inr files"
    "map (read_listed E) files = map Inr mds"
    "map (to_post E) (zip mds files) = map Inr posts"
    "ps = sort_cmp compare_publishedAt (filter (listed E) posts)"
  using assms
  by (auto simp: Page_def promise_all_Inr map_throwing_Inr split: sum.splits)

lemma item_in_posts:
  assumes reads: "map (read_listed E) files = map Inr mds"
    and posts: "map (to_post E) (zip mds files) = map Inr posts"
    and mem: "file \<in> set files"
    and m: "read_listed E file = Inr m"
  shows "\<exists>p \<in> set posts. to_post E (m, file) = Inr p"
proof -
  from mem obtain i where i: "i < length files" "files ! i = file"
    by (auto simp: in_set_conv_nth)
  have len_mds: "length mds = length files"
    using reads by (metis length_map)
  have len_posts: "length posts = length files"
    using posts len_mds by (metis length_map length_zip min.idem)
  have "map (read_listed E) files ! i = map Inr mds ! i"
    using reads by simp
  then have mi: "mds ! i = m"
    using i m len_mds by simp
  have "map (to_post E) (zip mds files) ! i = map Inr posts ! i"
    using posts by simp
  then have "to_post E (m, file) = Inr (posts ! i)"
    using i mi len_mds len_posts by simp
  moreover have "posts ! i \<in> set posts"
    using i len_posts by simp
  ultimately show ?thesis by blast
qed

lemma sorted_insert_cmp:
  "sorted_wrt (\<lambda>a b. publishedAt b \<le> publishedAt a) xs \<Longrightarrow>
   sorted_wrt (\<lambda>a b. publishedAt b \<le> publishedAt a) (insert_cmp compare_publishedAt x xs)"
  by (induction xs) (auto simp: set_insert_cmp compare_publishedAt_def)

lemma sorted_sort_cmp:
  "sorted_wrt (\<lambda>a b. publishedAt b \<le> publishedAt a) (sort_cmp compare_publishedAt xs)"
  by (induction xs) (simp_all add: sort_cmp_def sorted_insert_cmp)

text \<open>The definitions to unfold when a page is run on the in-memory repository.\<close>

lemmas run_defs = Page_def fake_env_def read_listed_def to_post_def listed_def sort_cmp_def compare_publishedAt_def
     item_path_def split_dot_first_def or_empty_def
     validate_def check_title_def check_summary_def check_date_def coerce_date_def check_optional_date_def
     check_tags_def normalize_tags_def check_sequence_def check_draft_def matter.defs post.defs

lemma read_listed_mode: "read_listed (E\<lparr>IS_DEVELOPMENT := b\<rparr>) = read_listed E"
  by (rule ext) (simp add: read_listed_def)

lemma to_post_mode: "to_post (E\<lparr>IS_DEVELOPMENT := b\<rparr>) = to_post E"
  by (simp add: to_post_def)

lemma set_Page:
  assumes ok: "Page E = Inr ps"
    and dir: "readdirSync E (getPublicPath E ''content/blog'') = Inr files"
    and mem: "entry \<in> set files"
    and rd: "read_listed E entry = Inr m"
    and p: "to_post E (m, entry) = Inr p"
  shows "p \<in> set ps \<longleftrightarrow> listed E p"
proof -
  from ok obtain files' mds posts where
    dir': "readdirSync E (getPublicPath E ''content/blog'') = Inr files'"
    and reads: "map (read_listed E) files' = map Inr mds"
    and posts: "map (to_post E) (zip mds files') = map Inr posts"
    and ps: "ps = sort_cmp compare_publishedAt (filter (listed E) posts)"
    by (rule Page_Inr)
  from dir dir' have "files' = files" by simp
  with reads posts mem rd have "\<exists>q \<in> set posts. to_post E (m, entry) = Inr q"
    by (simp add: item_in_posts)
  with p have "p \<in> set posts" by auto
  with ps show ?thesis by (simp add: set_sort_cmp)
qed


section \<open>Properties of the two slug derivations\<close>

lemma takeWhile_no_dot:
  "CHR ''.'' \<notin> set a \<Longrightarrow> takeWhile (\<lambda>c. c \<noteq> CHR ''.'') a = a"
  by (induction a) auto

lemma takeWhile_to_dot:
  "CHR ''.'' \<notin> set a \<Longrightarrow> takeWhile (\<lambda>c. c \<noteq> CHR ''.'') (a @ CHR ''.'' # r) = a"
  by (induction a) auto

lemma derivations_agree_without_dot:
  "CHR ''.'' \<notin> set a \<Longrightarrow> path_parse_name a = split_dot_first a"
  by (simp add: path_parse_name_def split_dot_first_def takeWhile_no_dot)

lemma derivations_agree_with_one_dot:
  assumes a: "CHR ''.'' \<notin> set a" "a \<noteq> []" and b: "CHR ''.'' \<notin> set b"
  shows "path_parse_name (a @ ''.'' @ b) = split_dot_first (a @ ''.'' @ b)"
proof -
  have "CHR ''.'' \<notin> set (rev b)"
    using b by simp
  then have "takeWhile (\<lambda>c. c \<noteq> CHR ''.'') (rev b @ CHR ''.'' # rev a) = rev b"
    by (rule takeWhile_to_dot)
  then have ext: "takeWhile (\<lambda>c. c \<noteq> CHR ''.'') (rev (a @ ''.'' @ b)) = rev b"
    by simp
  have dots: "a @ ''.'' @ b \<noteq> ''..''"
    using a by (cases a) auto
  have first: "takeWhile (\<lambda>c. c \<noteq> CHR ''.'') (a @ ''.'' @ b) = a"
    using a takeWhile_to_dot [of a b] by simp
  have "path_parse_name (a @ ''.'' @ b) = a"
    unfolding path_parse_name_def ext using a dots by simp
  with first show ?thesis
    by (simp add: split_dot_first_def)
qed

section \<open>Properties of the schema\<close>

lemma check_title_again: "check_title v = Some t \<Longrightarrow> check_title (Some (RString t)) = Some t"
  by (auto simp: check_title_def split: option.splits raw_value.splits if_splits)

lemma check_summary_again: "check_summary (Some (RString s)) = Some s"
  by (simp add: check_summary_def)

lemma check_date_again: "check_date parseDate (Some (RDate d)) = Some d"
  by (simp add: check_date_def coerce_date_def)

lemma check_optional_date_again:
  "check_optional_date parseDate (map_option RDate u) = Some u"
  by (cases u) (simp_all add: check_optional_date_def coerce_date_def)

lemma strings_of_map_RString: "strings_of (map RString g) = Some g"
  by (induction g) simp_all

lemma check_tags_again: "check_tags (Some (RList (map RString g))) = Some g"
  by (simp add: check_tags_def normalize_tags_def check_sequence_def strings_of_map_RString)

lemma check_draft_again: "check_draft v = Some d \<Longrightarrow> check_draft (map_option RBool d) = Some d"
  by (auto simp: check_draft_def split: option.splits raw_value.splits)

lemma check_tags_bare: "check_tags (Some (RString v)) = Some [v]"
  by (simp add: check_tags_def normalize_tags_def check_sequence_def)

lemma validate_Inr:
  "validate parseDate raw = Inr m \<longleftrightarrow>
     (\<exists>t s p u g d.
        check_title (raw ''title'') = Some t \<and> check_summary (raw ''summary'') = Some s \<and>
        check_date parseDate (raw ''publishedAt'') = Some p \<and>
        check_optional_date parseDate (raw ''updatedAt'') = Some u \<and>
        check_tags (raw ''tags'') = Some g \<and> check_draft (raw ''draft'') = Some d \<and>
        m = \<lparr>title = t, summary = s, publishedAt = p, updatedAt = u, tags = g, draft = d\<rparr>)"
  by (auto simp: validate_def bind_eq_Some_conv split: option.splits)

section \<open>The listing\<close>

text \<open>
  C1. The listing is in descending order of \<open>publishedAt\<close>: whenever the listing page
  builds its sequence, each entry is published no earlier than the entry after it. In
  particular, with one item published on 2024-01-01 and one on 2024-06-01, the item of
  2024-06-01 comes first.
\<close>

theorem Page_sorted_by_publishedAt:
  "(\<forall>E posts. Page E = Inr posts \<longrightarrow>
      (\<forall>i. Suc i < length posts \<longrightarrow> publishedAt (posts ! Suc i) \<le> publishedAt (posts ! i)))
   \<and> Page (fake_env False [hello_item, june_item]) = Inr [june_post, hello_post]"
proof (intro conjI allI impI)
  fix E posts i
  assume ok: "Page E = Inr posts" and i: "Suc i < length posts"
  from ok have "sorted_wrt (\<lambda>a b. publishedAt b \<le> publishedAt a) posts"
    by (elim Page_Inr) (simp add: sorted_sort_cmp)
  with i show "publishedAt (posts ! Suc i) \<le> publishedAt (posts ! i)"
    by (simp add: sorted_wrt_iff_nth_less)
next
  show "Page (fake_env False [hello_item, june_item]) = Inr [june_post, hello_post]"
    by (simp add: run_defs hello_item_def june_item_def hello_post_def june_post_def)
qed

theorem Page_sorted_by_publishedAt_witness:
  "Page (fake_env False [hello_item, june_item]) = Inr [june_post, hello_post]
   \<and> publishedAt hello_post \<le> publishedAt june_post"
proof -
  have run: "Page (fake_env False [hello_item, june_item]) = Inr [june_post, hello_post]"
    using Page_sorted_by_publishedAt by blast
  have "Suc 0 < length [june_post, hello_post] \<longrightarrow>
        publishedAt ([june_post, hello_post] ! Suc 0) \<le> publishedAt ([june_post, hello_post] ! 0)"
    using Page_sorted_by_publishedAt run by blast
  then show ?thesis using run by simp
qed

text \<open>
  The document that the listing reads for a directory entry: the entry made from it is
  in the listing of a development build, and in the listing of a production build
  exactly when its \<open>draft\<close> is not true. The document is the one found under the part
  of the entry's name before its first dot.
\<close>

lemma read_document_listed_by_mode:
  assumes dir: "readdirSync E (getPublicPath E ''content/blog'') = Inr files"
    and mem: "entry \<in> set files"
    and rd: "read_listed E entry = Inr m"
    and p: "to_post E (m, entry) = Inr p"
    and prod: "Page (E\<lparr>IS_DEVELOPMENT := False\<rparr>) = Inr production"
    and dev: "Page (E\<lparr>IS_DEVELOPMENT := True\<rparr>) = Inr development"
  shows "p \<in> set development \<and> (p \<in> set production \<longleftrightarrow> draft p \<noteq> Some True)"
proof
  show "p \<in> set development"
    using set_Page [OF dev, of files entry m p] dir mem rd p
    by (simp add: read_listed_mode to_post_mode listed_def)
  show "p \<in> set production \<longleftrightarrow> draft p \<noteq> Some True"
    using set_Page [OF prod, of files entry m p] dir mem rd p
    by (simp add: read_listed_mode to_post_mode listed_def)
qed

lemma drafts_listed_under_plain_names:
  "Page (fake_env False [hello_item, wip_item, june_item]) = Inr [june_post, hello_post] \<and>
   Page (fake_env True [hello_item, wip_item, june_item]) = Inr [june_post, wip_post, hello_post]"
  by (simp add: run_defs hello_item_def wip_item_def june_item_def
        hello_post_def wip_post_def june_post_def)

text \<open>
  C2. A draft is to be absent from the listing of a production build and present in
  the listing of a development build, an item that is no draft present in both. With
  \<open>next.mdx\<close> and a draft \<open>next.js-caching.mdx\<close> in the repository, both names lead the
  listing to \<open>next.mdx\<close>: the listing of a development build holds \<open>next.mdx\<close> twice and
  the draft not at all. With a \<open>next.js-caching.mdx\<close> that is no draft, the listing
  of neither build holds it.
\<close>

theorem dotted_draft_missing_from_development_listing:
  "validate (\<lambda>s. None) (itemFrontmatter dotted_draft_item) =
     Inr \<lparr>title = ''Caching'', summary = ''c'', publishedAt = 1709251200000, updatedAt = None,
          tags = [''Next.js''], draft = Some True\<rparr> \<and>
   readdirSync (fake_env True [next_item, dotted_draft_item]) ''public/content/blog'' =
     Inr [''next.mdx'', ''next.js-caching.mdx''] \<and>
   Page (fake_env True [next_item, dotted_draft_item]) = Inr [next_post, next_post] \<and>
   Page (fake_env False [next_item, dotted_draft_item]) = Inr [next_post, next_post] \<and>
   validate (\<lambda>s. None) (itemFrontmatter dotted_item) =
     Inr \<lparr>title = ''Caching'', summary = ''c'', publishedAt = 1709251200000, updatedAt = None,
          tags = [''Next.js''], draft = Some False\<rparr> \<and>
   Page (fake_env True [next_item, dotted_item]) = Inr [next_post, next_post] \<and>
   Page (fake_env False [next_item, dotted_item]) = Inr [next_post, next_post] \<and>
   ''Caching'' \<notin> set (map title [next_post, next_post])"
  by (simp add: run_defs next_item_def next_post_def dotted_draft_item_def dotted_item_def)

text \<open>
  When the schema rejects the document that the listing reads for a directory entry,
  the page returns no listing. A repository with one item that lacks \<open>summary\<close>, among
  valid ones with names of their own, ends in a validation error.
\<close>

lemma Page_fails_when_read_document_is_rejected:
  "(\<forall>E files entry m e.
      readdirSync E (getPublicPath E ''content/blog'') = Inr files \<and> entry \<in> set files \<and>
      read_listed E entry = Inr m \<and> blogMatterSchema_parse E (frontmatter m) = Inl e
      \<longrightarrow> (\<exists>e'. Page E = Inl e'))
   \<and> Page (fake_env False [hello_item, broken_item, june_item]) = Inl ValidationError"
proof (intro conjI allI impI)
  fix E files entry m e
  assume a: "readdirSync E (getPublicPath E ''content/blog'') = Inr files \<and> entry \<in> set files \<and>
      read_listed E entry = Inr m \<and> blogMatterSchema_parse E (frontmatter m) = Inl e"
  then have bad: "to_post E (m, entry) = Inl e"
    by (simp add: to_post_def)
  show "\<exists>e'. Page E = Inl e'"
  proof (cases "Page E")
    case (Inl e')
    then show ?thesis by blast
  next
    case (Inr ps)
    then obtain files' mds posts where
      dir': "readdirSync E (getPublicPath E ''content/blog'') = Inr files'"
      and reads: "map (read_listed E) files' = map Inr mds"
      and posts: "map (to_post E) (zip mds files') = map Inr posts"
      by (rule Page_Inr)
    from a dir' have "files' = files" by simp
    with reads posts a have "\<exists>q \<in> set posts. to_post E (m, entry) = Inr q"
      by (simp add: item_in_posts)
    with bad show ?thesis by simp
  qed
next
  show "Page (fake_env False [hello_item, broken_item, june_item]) = Inl ValidationError"
    by (simp add: run_defs hello_item_def june_item_def broken_item_def)
qed

text \<open>
  C3. An item whose metadata fails the schema is to fail the whole listing. With
  \<open>next.mdx\<close> and a \<open>next.js-caching.mdx\<close> that lacks \<open>summary\<close> in the repository, both
  names lead the listing to \<open>next.mdx\<close>: the file without summary is never read, and
  the page returns a listing that holds \<open>next.mdx\<close> twice.
\<close>

theorem dotted_invalid_item_skipped_by_listing:
  "validate (\<lambda>s. None) (itemFrontmatter dotted_broken_item) = Inl ValidationError \<and>
   readdirSync (fake_env False [next_item, dotted_broken_item]) ''public/content/blog'' =
     Inr [''next.mdx'', ''next.js-caching.mdx''] \<and>
   read_listed (fake_env False [next_item, dotted_broken_item]) ''next.js-caching.mdx'' =
     Inr \<lparr>frontmatter = itemFrontmatter next_item\<rparr> \<and>
   Page (fake_env False [next_item, dotted_broken_item]) = Inr [next_post, next_post] \<and>
   Page (fake_env True [next_item, dotted_broken_item]) = Inr [next_post, next_post]"
  by (simp add: run_defs next_item_def next_post_def dotted_broken_item_def)

section \<open>The detail page and its metadata\<close>

text \<open>
  C4. For a slug with no backing file the detail page answers with the paragraph
  \<open>Post not Found\<close>: it neither fails nor reads, compiles or validates any document.
\<close>

theorem missing_file_shows_not_found:
  assumes "lookupPublicFile E (getPublicPath E (''content/blog/'' @ s)) ''mdx'' = None"
  shows "slug_Page E s = ([], Inr PostNotFound)"
  using assms by (simp add: slug_Page_def)

theorem missing_file_shows_not_found_witness:
  "lookupPublicFile (fake_env False [hello_item])
     (getPublicPath (fake_env False [hello_item]) (''content/blog/'' @ ''nope'')) ''mdx'' = None \<and>
   slug_Page (fake_env False [hello_item]) ''nope'' = ([], Inr PostNotFound)"
proof -
  let ?E = "fake_env False [hello_item]"
  have none: "lookupPublicFile ?E (getPublicPath ?E (''content/blog/'' @ ''nope'')) ''mdx'' = None"
    by (simp add: run_defs hello_item_def)
  from missing_file_shows_not_found [OF none] none show ?thesis by simp
qed

text \<open>
  C9. For an item whose \<open>draft\<close> is true the detail page shows the title, the dates and
  the tags together with the draft notice; the compiled body is part of the page in a
  development build and left out otherwise.
\<close>

theorem draft_detail_page:
  assumes "lookupPublicFile E (getPublicPath E (''content/blog/'' @ s)) ''mdx'' = Some path"
    and "path \<noteq> []"
    and "readFileSync E path = Inr fileContents"
    and "serialize E fileContents = Inr compiled"
    and "blogMatterSchema_parse E (mdx_frontmatter compiled) = Inr m"
    and "draft m = Some True"
  shows "snd (slug_Page E s) =
    Inr (Article
      \<lparr>heading = title m, published = publishedAt m, updated = updatedAt m,
       hits = ''/blog/'' @ s, badges = tags m, draft_notice = True,
       body = (if IS_DEVELOPMENT E then Some compiled else None)\<rparr>)"
  using assms by (simp add: slug_Page_def)

theorem draft_detail_page_witness:
  "snd (slug_Page (fake_env False [hello_item, wip_item]) ''wip'') =
     Inr (Article
       \<lparr>heading = ''Wip'', published = 1709251200000, updated = None,
        hits = ''/blog/wip'', badges = [''Notes''], draft_notice = True, body = None\<rparr>) \<and>
   snd (slug_Page (fake_env True [hello_item, wip_item]) ''wip'') =
     Inr (Article
       \<lparr>heading = ''Wip'', published = 1709251200000, updated = None,
        hits = ''/blog/wip'', badges = [''Notes''], draft_notice = True,
        body = Some \<lparr>compiledSource = ''wip'', mdx_frontmatter = itemFrontmatter wip_item\<rparr>\<rparr>)"
proof -
  let ?m = "\<lparr>title = ''Wip'', summary = ''w'', publishedAt = 1709251200000, updatedAt = None,
      tags = [''Notes''], draft = Some True\<rparr>"
  let ?c = "\<lparr>compiledSource = ''wip'', mdx_frontmatter = itemFrontmatter wip_item\<rparr>"
  have run: "lookupPublicFile (fake_env dev [hello_item, wip_item])
        (getPublicPath (fake_env dev [hello_item, wip_item]) (''content/blog/'' @ ''wip'')) ''mdx''
        = Some ''public/content/blog/wip.mdx''"
      "''public/content/blog/wip.mdx'' \<noteq> []"
      "readFileSync (fake_env dev [hello_item, wip_item]) ''public/content/blog/wip.mdx'' = Inr ''wip''"
      "serialize (fake_env dev [hello_item, wip_item]) ''wip'' = Inr ?c"
      "blogMatterSchema_parse (fake_env dev [hello_item, wip_item]) (mdx_frontmatter ?c) = Inr ?m"
      "draft ?m = Some True" for dev
    by (simp_all add: run_defs hello_item_def wip_item_def)
  from draft_detail_page [OF run, of False] draft_detail_page [OF run, of True]
  show ?thesis by (simp add: fake_env_def)
qed



text \<open>
  C5. The listing takes the part of a file name before its first dot, the static
  parameters of the detail route take the name up to its last dot. On the file name
  \<open>next.js-caching.mdx\<close> the first gives \<open>next\<close> and the second \<open>next.js-caching\<close>; with
  that file in the in-memory repository the detail route is generated for
  \<open>next.js-caching\<close> while the listing looks for an item \<open>next\<close> and fails.
\<close>

theorem slug_derivations_disagree:
  "split_dot_first ''next.js-caching.mdx'' = ''next'' \<and>
   path_parse_name ''next.js-caching.mdx'' = ''next.js-caching'' \<and>
   generateStaticParams (fake_env False [dotted_item]) = Inr [''next.js-caching''] \<and>
   Page (fake_env False [dotted_item]) = Inl FileUnreadable"
  by (simp add: split_dot_first_def path_parse_name_def generateStaticParams_def run_defs dotted_item_def)

section \<open>The schema's properties\<close>

text \<open>
  C6. A bare string \<open>v\<close> under \<open>tags\<close> is read as the one-element sequence of \<open>v\<close> before
  the sequence is checked: the record validates exactly as the record with the sequence
  in its place does, and a validated record has the tags \<open>[v]\<close>. The front matter of
  \<open>hello.mdx\<close> with \<open>tags: World\<close> validates to the tags \<open>[World]\<close> and is listed so.
\<close>

theorem bare_string_tag_becomes_sequence:
  "(\<forall>parseDate raw v. raw ''tags'' = Some (RString v) \<longrightarrow>
      check_tags (raw ''tags'') = Some [v] \<and>
      validate parseDate raw = validate parseDate (raw(''tags'' \<mapsto> RList [RString v])) \<and>
      (\<forall>m. validate parseDate raw = Inr m \<longrightarrow> tags m = [v]))
   \<and> validate (\<lambda>s. None) (itemFrontmatter hello_item) =
       Inr \<lparr>title = ''Hello'', summary = ''s'', publishedAt = 1704067200000, updatedAt = None,
            tags = [''World''], draft = Some False\<rparr>
   \<and> Page (fake_env False [hello_item]) = Inr [hello_post]"
proof (intro conjI allI impI)
  fix parseDate :: "string \<Rightarrow> int option" and raw :: frontmatter and v
  assume bare: "raw ''tags'' = Some (RString v)"
  then show "check_tags (raw ''tags'') = Some [v]"
    by (simp add: check_tags_bare)
  show "validate parseDate raw = validate parseDate (raw(''tags'' \<mapsto> RList [RString v]))"
    using bare by (simp add: validate_def check_tags_def normalize_tags_def)
  fix m
  assume "validate parseDate raw = Inr m"
  with bare show "tags m = [v]"
    by (auto simp: validate_Inr check_tags_bare)
next
  show "validate (\<lambda>s. None) (itemFrontmatter hello_item) =
       Inr \<lparr>title = ''Hello'', summary = ''s'', publishedAt = 1704067200000, updatedAt = None,
            tags = [''World''], draft = Some False\<rparr>"
    by (simp add: run_defs hello_item_def hello_post_def)
  show "Page (fake_env False [hello_item]) = Inr [hello_post]"
    by (simp add: run_defs hello_item_def hello_post_def)
qed

theorem bare_string_tag_becomes_sequence_witness:
  "itemFrontmatter hello_item ''tags'' = Some (RString ''World'') \<and>
   (\<exists>m. validate (\<lambda>s. None) (itemFrontmatter hello_item) = Inr m \<and> tags m = [''World''])"
proof -
  have bare: "itemFrontmatter hello_item ''tags'' = Some (RString ''World'')"
    by (simp add: hello_item_def)
  have ok: "validate (\<lambda>s. None) (itemFrontmatter hello_item) =
       Inr \<lparr>title = ''Hello'', summary = ''s'', publishedAt = 1704067200000, updatedAt = None,
            tags = [''World''], draft = Some False\<rparr>"
    using bare_string_tag_becomes_sequence by blast
  from bare_string_tag_becomes_sequence bare ok
  have "tags \<lparr>title = ''Hello'', summary = ''s'', publishedAt = 1704067200000, updatedAt = None,
            tags = [''World''], draft = Some False\<rparr> = [''World'']"
    by blast
  with bare ok show ?thesis by blast
qed

text \<open>
  C7. Validation is idempotent on valid input: a record that the schema has accepted,
  handed to the schema again, is accepted and comes back unchanged.
\<close>

theorem validate_idempotent:
  assumes "validate parseDate raw = Inr m"
  shows "validate parseDate (to_raw m) = Inr m"
proof -
  from assms obtain t s p u g d where
    t: "check_title (raw ''title'') = Some t"
    and d: "check_draft (raw ''draft'') = Some d"
    and m: "m = \<lparr>title = t, summary = s, publishedAt = p, updatedAt = u, tags = g, draft = d\<rparr>"
    by (auto simp: validate_Inr)
  have "check_title (to_raw m ''title'') = Some t"
    using t m by (simp add: to_raw_def check_title_again)
  moreover have "check_summary (to_raw m ''summary'') = Some s"
    using m by (simp add: to_raw_def check_summary_again)
  moreover have "check_date parseDate (to_raw m ''publishedAt'') = Some p"
    using m by (simp add: to_raw_def check_date_again)
  moreover have "check_optional_date parseDate (to_raw m ''updatedAt'') = Some u"
    using m by (simp add: to_raw_def check_optional_date_again)
  moreover have "check_tags (to_raw m ''tags'') = Some g"
    using m by (simp add: to_raw_def check_tags_again)
  moreover have "check_draft (to_raw m ''draft'') = Some d"
    using d m by (simp add: to_raw_def check_draft_again)
  ultimately show ?thesis
    using m by (simp add: validate_Inr)
qed

theorem validate_idempotent_witness:
  "validate (\<lambda>s. None) (itemFrontmatter wip_item) =
     Inr \<lparr>title = ''Wip'', summary = ''w'', publishedAt = 1709251200000, updatedAt = None,
          tags = [''Notes''], draft = Some True\<rparr> \<and>
   validate (\<lambda>s. None)
     (to_raw \<lparr>title = ''Wip'', summary = ''w'', publishedAt = 1709251200000, updatedAt = None,
          tags = [''Notes''], draft = Some True\<rparr>) =
     Inr \<lparr>title = ''Wip'', summary = ''w'', publishedAt = 1709251200000, updatedAt = None,
          tags = [''Notes''], draft = Some True\<rparr>"
proof -
  have ok: "validate (\<lambda>s. None) (itemFrontmatter wip_item) =
     Inr \<lparr>title = ''Wip'', summary = ''w'', publishedAt = 1709251200000, updatedAt = None,
          tags = [''Notes''], draft = Some True\<rparr>"
    by (simp add: run_defs wip_item_def)
  from validate_idempotent [OF ok] ok show ?thesis by simp
qed

end
